theory Spec2Isabelle
  imports Main "HOL-Library.Word"
begin

section \<open>Python values, exceptions and slices\<close>

text \<open>
  The embedded program is \<^verbatim>\<open>compute-images/scripts/parse_gpt.py\<close>. A Python
  \<^verbatim>\<open>bytes\<close> object is a list of 8-bit words, a Python \<^verbatim>\<open>int\<close> is an
  \<open>int\<close>, and a Python \<^verbatim>\<open>str\<close> is the list of its Unicode code points.
  The fields of the two named tuples that change their Python type during decoding
  (\<^verbatim>\<open>bytes\<close> before \<^verbatim>\<open>_replace\<close>, \<^verbatim>\<open>str\<close> after it) hold a tagged
  value; \<^verbatim>\<open>==\<close> between a \<^verbatim>\<open>bytes\<close> and a \<^verbatim>\<open>str\<close> is \<^verbatim>\<open>False\<close> in
  Python 3, which is what equality of two differently tagged values gives.
\<close>

type_synonym byte = "8 word"
type_synonym pystr = "nat list"

datatype pyval = PyBytes "byte list" | PyInt int | PyStr pystr

text \<open>
  The messages of \<^verbatim>\<open>GPTError\<close> are f-strings over a fixed prefix and the offending
  field; the message is kept as its prefix together with the interpolated value.
\<close>

datatype gpt_message =
    Bad_signature "byte list"
  | Bad_revision "byte list"
  | Bad_header_size int
  | Short_partition_entry

text \<open>
  The exceptions that can leave the two functions: \<^verbatim>\<open>struct.error\<close> (from
  \<^verbatim>\<open>struct.unpack\<close>), the script's own \<^verbatim>\<open>GPTError\<close>, and the built-in
  \<^verbatim>\<open>ValueError\<close>, \<^verbatim>\<open>TypeError\<close>, \<^verbatim>\<open>AttributeError\<close>,
  \<^verbatim>\<open>AssertionError\<close> and \<^verbatim>\<open>UnicodeDecodeError\<close>.
\<close>

datatype error =
    Struct_error
  | GPTError gpt_message
  | ValueError
  | TypeError
  | AttributeError
  | AssertionError
  | UnicodeDecodeError

fun is_GPTError :: "error \<Rightarrow> bool" where
  "is_GPTError (GPTError m) = True"
| "is_GPTError e = False"

definition ascii :: "string \<Rightarrow> pystr" where
  "ascii s = map of_char s"

definition ascii_bytes :: "string \<Rightarrow> byte list" where
  "ascii_bytes s = map of_char s"

text \<open>
  \<^verbatim>\<open>xs[:k]\<close> and \<^verbatim>\<open>xs[k:]\<close>: a negative bound counts from the end, and every
  bound is clamped to the length.
\<close>

definition py_slice_to :: "'a list \<Rightarrow> int \<Rightarrow> 'a list" where
  "py_slice_to xs k =
     (if k < 0 then take (nat (int (length xs) + k)) xs else take (nat k) xs)"

definition py_slice_from :: "'a list \<Rightarrow> int \<Rightarrow> 'a list" where
  "py_slice_from xs k =
     (if k < 0 then drop (nat (int (length xs) + k)) xs else drop (nat k) xs)"

section \<open>The \<^verbatim>\<open>struct\<close> formats\<close>

text \<open>
  The format characters the script uses, always after the byte-order mark \<^verbatim>\<open><\<close>
  (little-endian, standard sizes, no padding): \<^verbatim>\<open>ns\<close> is \<open>n\<close> raw bytes,
  \<^verbatim>\<open>L\<close> an unsigned 32-bit integer, \<^verbatim>\<open>Q\<close> an unsigned 64-bit integer and
  \<^verbatim>\<open>nx\<close> is \<open>n\<close> pad bytes that produce no value.
\<close>

datatype fmt_item = Fs nat | FL | FQ | Fx nat

fun item_size :: "fmt_item \<Rightarrow> nat" where
  "item_size (Fs n) = n"
| "item_size FL = 4"
| "item_size FQ = 8"
| "item_size (Fx n) = n"

definition calcsize :: "fmt_item list \<Rightarrow> nat" where
  "calcsize fmt = sum_list (map item_size fmt)"

fun le_int :: "byte list \<Rightarrow> int" where
  "le_int [] = 0"
| "le_int (b # bs) = uint b + 256 * le_int bs"

fun unpack_items :: "fmt_item list \<Rightarrow> byte list \<Rightarrow> pyval list" where
  "unpack_items [] data = []"
| "unpack_items (Fs n # fs) data = PyBytes (take n data) # unpack_items fs (drop n data)"
| "unpack_items (FL # fs) data = PyInt (le_int (take 4 data)) # unpack_items fs (drop 4 data)"
| "unpack_items (FQ # fs) data = PyInt (le_int (take 8 data)) # unpack_items fs (drop 8 data)"
| "unpack_items (Fx n # fs) data = unpack_items fs (drop n data)"

text \<open>\<^verbatim>\<open>struct.unpack\<close> raises unless the buffer has exactly the size of the format.\<close>

definition struct_unpack :: "fmt_item list \<Rightarrow> byte list \<Rightarrow> error + pyval list" where
  "struct_unpack fmt data =
     (if length data \<noteq> calcsize fmt then Inl Struct_error else Inr (unpack_items fmt data))"

text \<open>
  \<^verbatim>\<open>_make_fmt\<close> turns a table of (format, name) lines into the format string and
  the named tuple of the fields whose name is not \<^verbatim>\<open>_\<close>.
\<close>

definition GPT_HEADER_FORMAT :: "(fmt_item \<times> string) list" where
  "GPT_HEADER_FORMAT =
    [(Fs 8, ''signature''), (Fs 4, ''revision''), (FL, ''header_size''), (FL, ''crc32''),
     (Fx 4, ''_''), (FQ, ''current_lba''), (FQ, ''backup_lba''), (FQ, ''first_usable_lba''),
     (FQ, ''last_usable_lba''), (Fs 16, ''disk_guid''), (FQ, ''part_entry_start_lba''),
     (FL, ''num_part_entries''), (FL, ''part_entry_size''), (FL, ''crc32_part_array'')]"

definition GPT_HDR_FMT :: "fmt_item list" where
  "GPT_HDR_FMT = map fst GPT_HEADER_FORMAT"

definition GPT_PARTITION_FORMAT :: "(fmt_item \<times> string) list" where
  "GPT_PARTITION_FORMAT =
    [(Fs 16, ''type''), (Fs 16, ''unique''), (FQ, ''first_lba''), (FQ, ''last_lba''),
     (FQ, ''flags''), (Fs 72, ''name'')]"

definition GPT_PART_FMT :: "fmt_item list" where
  "GPT_PART_FMT = map fst GPT_PARTITION_FORMAT"

record GPTHeader =
  signature :: "byte list"
  revision :: "byte list"
  header_size :: int
  crc32 :: int
  current_lba :: int
  backup_lba :: int
  first_usable_lba :: int
  last_usable_lba :: int
  disk_guid :: pyval
  part_entry_start_lba :: int
  num_part_entries :: int
  part_entry_size :: int
  crc32_part_array :: int

record GPTPartition =
  type :: pyval
  unique :: pyval
  first_lba :: int
  last_lba :: int
  flags :: int
  name :: pyval
  index :: int

text \<open>
  \<^verbatim>\<open>GPTHeader._make\<close> and \<^verbatim>\<open>GPTPartition._make\<close> fill the fields by position
  and raise \<^verbatim>\<open>TypeError\<close> on a wrong number of values. The integer and byte
  fields are typed here, so a value of another Python type in their place is
  \<^verbatim>\<open>TypeError\<close> as well (\<^verbatim>\<open>struct.unpack\<close> never delivers one).
\<close>

definition GPTHeader_make :: "pyval list \<Rightarrow> error + GPTHeader" where
  "GPTHeader_make vals =
     (case vals of
        [PyBytes sg, PyBytes rv, PyInt hs, PyInt crc, PyInt cur, PyInt bak, PyInt fu,
         PyInt lu, guid, PyInt st, PyInt n, PyInt sz, PyInt crca] \<Rightarrow>
          Inr \<lparr>signature = sg, revision = rv, header_size = hs, crc32 = crc,
               current_lba = cur, backup_lba = bak, first_usable_lba = fu,
               last_usable_lba = lu, disk_guid = guid, part_entry_start_lba = st,
               num_part_entries = n, part_entry_size = sz, crc32_part_array = crca\<rparr>
      | _ \<Rightarrow> Inl TypeError)"

definition GPTPartition_make :: "pyval list \<Rightarrow> error + GPTPartition" where
  "GPTPartition_make vals =
     (case vals of
        [ty, un, PyInt fl, PyInt ll, PyInt fg, nm, PyInt i] \<Rightarrow>
          Inr \<lparr>type = ty, unique = un, first_lba = fl, last_lba = ll, flags = fg,
               name = nm, index = i\<rparr>
      | _ \<Rightarrow> Inl TypeError)"

section \<open>Library calls: \<^verbatim>\<open>uuid.UUID\<close> and the \<^verbatim>\<open>utf-16\<close> codec\<close>

text \<open>
  \<^verbatim>\<open>uuid.UUID(bytes_le=b)\<close> raises \<^verbatim>\<open>ValueError\<close> unless \<open>b\<close> has 16 bytes and
  otherwise stores \<^verbatim>\<open>b[3::-1] + b[5:3:-1] + b[7:5:-1] + b[8:]\<close>, the big-endian
  bytes of the UUID. \<^verbatim>\<open>str\<close> of a UUID prints these 16 bytes as 32 lower-case
  hexadecimal digits, grouped 8-4-4-4-12.
\<close>

definition UUID_bytes_le :: "byte list \<Rightarrow> error + byte list" where
  "UUID_bytes_le b =
     (if length b \<noteq> 16 then Inl ValueError
      else Inr (rev (take 4 b) @ rev (take 2 (drop 4 b)) @ rev (take 2 (drop 6 b)) @ drop 8 b))"

definition hex_digit :: "nat \<Rightarrow> char" where
  "hex_digit n = ''0123456789abcdef'' ! n"

definition hex_byte :: "byte \<Rightarrow> string" where
  "hex_byte b = [hex_digit (unat b div 16), hex_digit (unat b mod 16)]"

definition hexlify :: "byte list \<Rightarrow> string" where
  "hexlify bs = concat (map hex_byte bs)"

definition UUID_str :: "byte list \<Rightarrow> pystr" where
  "UUID_str bs =
     (let hex = hexlify bs
      in ascii (take 8 hex @ ''-'' @ take 4 (drop 8 hex) @ ''-'' @ take 4 (drop 12 hex) @ ''-''
                @ take 4 (drop 16 hex) @ ''-'' @ drop 20 hex))"

text \<open>
  \<^verbatim>\<open>str(uuid.UUID(bytes_le=v))\<close> on a field of a named tuple. The script passes
  \<^verbatim>\<open>bytes\<close> only; a \<^verbatim>\<open>str\<close> fails the length test or the constructor's
  assertion that it was given \<^verbatim>\<open>bytes\<close>, and an \<^verbatim>\<open>int\<close> has no length.
\<close>

definition str_UUID_bytes_le :: "pyval \<Rightarrow> error + pyval" where
  "str_UUID_bytes_le v =
     (case v of
        PyBytes b \<Rightarrow> (case UUID_bytes_le b of Inl e \<Rightarrow> Inl e | Inr u \<Rightarrow> Inr (PyStr (UUID_str u)))
      | PyStr s \<Rightarrow> (if length s \<noteq> 16 then Inl ValueError else Inl AssertionError)
      | PyInt i \<Rightarrow> Inl TypeError)"

text \<open>
  \<^verbatim>\<open>bytes.decode("utf-16")\<close>: a leading byte-order mark \<^verbatim>\<open>FF FE\<close> or
  \<^verbatim>\<open>FE FF\<close> selects the byte order and is dropped; without one the host's byte
  order is used, little-endian on the x86-64 and AArch64 hosts the script runs on.
  An odd number of bytes and an unpaired surrogate raise \<^verbatim>\<open>UnicodeDecodeError\<close>.
\<close>

fun utf16_units :: "bool \<Rightarrow> byte list \<Rightarrow> nat list option" where
  "utf16_units le [] = Some []"
| "utf16_units le [a] = None"
| "utf16_units le (a # b # bs) =
     map_option (Cons (if le then unat a + 256 * unat b else 256 * unat a + unat b))
       (utf16_units le bs)"

fun utf16_points :: "nat list \<Rightarrow> nat list option" where
  "utf16_points [] = Some []"
| "utf16_points [u] = (if 0xD800 \<le> u \<and> u < 0xE000 then None else Some [u])"
| "utf16_points (u # v # us) =
     (if 0xD800 \<le> u \<and> u < 0xDC00 then
        (if 0xDC00 \<le> v \<and> v < 0xE000
         then map_option (Cons (0x10000 + (u - 0xD800) * 0x400 + (v - 0xDC00))) (utf16_points us)
         else None)
      else if 0xDC00 \<le> u \<and> u < 0xE000 then None
      else map_option (Cons u) (utf16_points (v # us)))"

definition decode_utf16 :: "byte list \<Rightarrow> error + pystr" where
  "decode_utf16 bs =
     (let units = (case bs of
                     a # b # rest \<Rightarrow>
                       if a = 0xFF \<and> b = 0xFE then utf16_units True rest
                       else if a = 0xFE \<and> b = 0xFF then utf16_units False rest
                       else utf16_units True bs
                   | _ \<Rightarrow> utf16_units True bs)
      in case units of
           None \<Rightarrow> Inl UnicodeDecodeError
         | Some us \<Rightarrow> (case utf16_points us of
                         None \<Rightarrow> Inl UnicodeDecodeError
                       | Some cs \<Rightarrow> Inr cs))"

text \<open>\<^verbatim>\<open>v.decode("utf-16").split("\0", 1)[0]\<close>: the text before the first NUL.\<close>

definition decode_name :: "pyval \<Rightarrow> error + pyval" where
  "decode_name v =
     (case v of
        PyBytes b \<Rightarrow> (case decode_utf16 b of
                        Inl e \<Rightarrow> Inl e
                      | Inr s \<Rightarrow> Inr (PyStr (takeWhile (\<lambda>c. c \<noteq> 0) s)))
      | _ \<Rightarrow> Inl AttributeError)"

section \<open>\<^verbatim>\<open>read_header\<close>\<close>

definition read_header :: "byte list \<Rightarrow> error + GPTHeader" where
  "read_header event =
     (let data = py_slice_to event (int (calcsize GPT_HDR_FMT))
      in case struct_unpack GPT_HDR_FMT data of
           Inl e \<Rightarrow> Inl e
         | Inr vals \<Rightarrow>
             (case GPTHeader_make vals of
                Inl e \<Rightarrow> Inl e
              | Inr header \<Rightarrow>
                  if signature header \<noteq> ascii_bytes ''EFI PART''
                  then Inl (GPTError (Bad_signature (signature header)))
                  else if revision header \<noteq> [0x00, 0x00, 0x01, 0x00]
                  then Inl (GPTError (Bad_revision (revision header)))
                  else if header_size header < 92
                  then Inl (GPTError (Bad_header_size (header_size header)))
                  else (case str_UUID_bytes_le (disk_guid header) of
                          Inl e \<Rightarrow> Inl e
                        | Inr g \<Rightarrow> Inr (header\<lparr>disk_guid := g\<rparr>))))"

section \<open>\<^verbatim>\<open>read_partitions\<close>\<close>

text \<open>
  \<^verbatim>\<open>read_partitions\<close> is a generator. Its run is the list of the records it
  yields, in order, together with the exception that ends it, if one does; a
  \<^verbatim>\<open>return\<close> and the end of the \<^verbatim>\<open>range\<close> both end it without one.
\<close>

type_synonym run = "GPTPartition list \<times> error option"

definition yield :: "GPTPartition \<Rightarrow> run \<Rightarrow> run" where
  "yield p r = (p # fst r, snd r)"

definition raise :: "error \<Rightarrow> run" where
  "raise e = ([], Some e)"

text \<open>The three assignments of \<^verbatim>\<open>part._replace(...)\<close>, evaluated left to right.\<close>

definition replace_fields :: "GPTPartition \<Rightarrow> error + GPTPartition" where
  "replace_fields part =
     (case str_UUID_bytes_le (type part) of
        Inl e \<Rightarrow> Inl e
      | Inr t \<Rightarrow>
          (case str_UUID_bytes_le (unique part) of
             Inl e \<Rightarrow> Inl e
           | Inr u \<Rightarrow>
               (case decode_name (name part) of
                  Inl e \<Rightarrow> Inl e
                | Inr n \<Rightarrow> Inr (part\<lparr>type := t, unique := u, name := n\<rparr>))))"

text \<open>
  The body of the \<^verbatim>\<open>for\<close> loop, over the remaining indices of
  \<^verbatim>\<open>range(1, 1 + header.num_part_entries)\<close>. The unused-slot test compares the
  \<^verbatim>\<open>bytes\<close> field \<^verbatim>\<open>part.type\<close> with the \<^verbatim>\<open>str\<close> \<^verbatim>\<open>16 * "\x00"\<close>.
\<close>

fun read_partitions_loop :: "byte list \<Rightarrow> int \<Rightarrow> int list \<Rightarrow> run" where
  "read_partitions_loop event sz [] = ([], None)"
| "read_partitions_loop event sz (i # is) =
     (let data = py_slice_to event sz;
          event' = py_slice_from event sz
      in if data = [] then ([], None)
         else if length data < calcsize GPT_PART_FMT
         then raise (GPTError Short_partition_entry)
         else (case struct_unpack GPT_PART_FMT data of
                 Inl e \<Rightarrow> raise e
               | Inr vals \<Rightarrow>
                   (case GPTPartition_make (vals @ [PyInt i]) of
                      Inl e \<Rightarrow> raise e
                    | Inr part \<Rightarrow>
                        if type part = PyStr (replicate 16 0)
                        then read_partitions_loop event' sz is
                        else (case replace_fields part of
                                Inl e \<Rightarrow> raise e
                              | Inr part' \<Rightarrow>
                                  yield part' (read_partitions_loop event' sz is)))))"

text \<open>
  The parameter \<^verbatim>\<open>lba_size: int = 50\<close> is optional: \<open>None\<close> is a call that
  leaves it out.
\<close>

definition read_partitions :: "byte list \<Rightarrow> GPTHeader \<Rightarrow> int option \<Rightarrow> run" where
  "read_partitions event header lba_arg =
     (let lba_size = (case lba_arg of None \<Rightarrow> 50 | Some v \<Rightarrow> v);
          event' = py_slice_from event (part_entry_start_lba header * lba_size)
      in read_partitions_loop event' (part_entry_size header)
           [1 .. num_part_entries header])"

section \<open>Notions used in the statements\<close>

text \<open>The value of \<^verbatim>\<open>event\<close> after the first statement of \<^verbatim>\<open>read_partitions\<close>.\<close>

definition partition_array :: "byte list \<Rightarrow> GPTHeader \<Rightarrow> int option \<Rightarrow> byte list" where
  "partition_array event header lba_arg =
     py_slice_from event
       (part_entry_start_lba header * (case lba_arg of None \<Rightarrow> 50 | Some v \<Rightarrow> v))"

text \<open>
  The value of \<^verbatim>\<open>event\<close> after \<open>k\<close> passes through the loop body, and the slice
  \<^verbatim>\<open>data\<close> that pass \<open>k + 1\<close> reads (the entry of index \<open>k + 1\<close>).
\<close>

fun advance :: "byte list \<Rightarrow> int \<Rightarrow> nat \<Rightarrow> byte list" where
  "advance event sz 0 = event"
| "advance event sz (Suc k) = advance (py_slice_from event sz) sz k"

definition entry_slice :: "byte list \<Rightarrow> int \<Rightarrow> nat \<Rightarrow> byte list" where
  "entry_slice event sz k = py_slice_to (advance event sz k) sz"

text \<open>One run followed by another: the second one starts only if the first did not raise.\<close>

definition and_then :: "run \<Rightarrow> run \<Rightarrow> run" where
  "and_then r1 r2 = (case snd r1 of None \<Rightarrow> (fst r1 @ fst r2, snd r2) | Some e \<Rightarrow> r1)"

text \<open>What one pass through the loop body does with its slice and its index.\<close>

datatype outcome = Return | Raise error | Continue | Yield GPTPartition

definition entry_outcome :: "byte list \<Rightarrow> int \<Rightarrow> outcome" where
  "entry_outcome data i =
     (if data = [] then Return
      else if length data < calcsize GPT_PART_FMT then Raise (GPTError Short_partition_entry)
      else (case struct_unpack GPT_PART_FMT data of
              Inl e \<Rightarrow> Raise e
            | Inr vals \<Rightarrow>
                (case GPTPartition_make (vals @ [PyInt i]) of
                   Inl e \<Rightarrow> Raise e
                 | Inr part \<Rightarrow>
                     if type part = PyStr (replicate 16 0) then Continue
                     else (case replace_fields part of
                             Inl e \<Rightarrow> Raise e
                           | Inr part' \<Rightarrow> Yield part'))))"

text \<open>The named tuple that \<^verbatim>\<open>read_header\<close> unpacks, before validation.\<close>

definition raw_header :: "byte list \<Rightarrow> GPTHeader" where
  "raw_header data =
     \<lparr>signature = take 8 data, revision = take 4 (drop 8 data),
      header_size = le_int (take 4 (drop 12 data)), crc32 = le_int (take 4 (drop 16 data)),
      current_lba = le_int (take 8 (drop 24 data)), backup_lba = le_int (take 8 (drop 32 data)),
      first_usable_lba = le_int (take 8 (drop 40 data)),
      last_usable_lba = le_int (take 8 (drop 48 data)),
      disk_guid = PyBytes (take 16 (drop 56 data)),
      part_entry_start_lba = le_int (take 8 (drop 72 data)),
      num_part_entries = le_int (take 4 (drop 80 data)),
      part_entry_size = le_int (take 4 (drop 84 data)),
      crc32_part_array = le_int (take 4 (drop 88 data))\<rparr>"

text \<open>The text of a 16-byte little-endian GUID field.\<close>

definition canonical_guid :: "byte list \<Rightarrow> pyval" where
  "canonical_guid b =
     PyStr (UUID_str (rev (take 4 b) @ rev (take 2 (drop 4 b)) @ rev (take 2 (drop 6 b))
                      @ drop 8 b))"

subsection \<open>The encoding direction of the GUID codec\<close>

text \<open>
  The script only decodes GUIDs. The spec's codec also goes back ("GuidCodec converts a
  16-byte little-endian GUID field into its canonical text form and back"); that
  direction is not in the source and the next three definitions supply it.
\<close>

text \<open>
  Modelled from the spec: the value of one digit of the canonical text, which is
  written with the digits \<^verbatim>\<open>0\<close> to \<^verbatim>\<open>9\<close> and \<^verbatim>\<open>a\<close> to \<^verbatim>\<open>f\<close>; the
  source has no function that reads hexadecimal text.
\<close>

definition unhex_digit :: "nat \<Rightarrow> nat option" where
  "unhex_digit c =
     (if 48 \<le> c \<and> c \<le> 57 then Some (c - 48)
      else if 97 \<le> c \<and> c \<le> 102 then Some (c - 87)
      else None)"

text \<open>
  Modelled from the spec: the bytes that a text of hexadecimal digits spells, two
  digits to the byte; the source has no function that reads hexadecimal text.
\<close>

fun unhexlify :: "pystr \<Rightarrow> byte list option" where
  "unhexlify [] = Some []"
| "unhexlify [c] = None"
| "unhexlify (c # d # cs) =
     (case (unhex_digit c, unhex_digit d, unhexlify cs) of
        (Some h, Some l, Some bs) \<Rightarrow> Some (of_nat (16 * h + l) # bs)
      | _ \<Rightarrow> None)"

text \<open>
  Modelled from the spec: the encoder of the GUID codec, missing from the source. It
  reads the 32 digits of \<^verbatim>\<open>xxxxxxxx-xxxx-xxxx-xxxx-xxxxxxxxxxxx\<close> as 16 bytes and
  swaps the first three fields back to little-endian, the wire form; any other text is
  malformed (\<open>None\<close>).
\<close>

definition guid_encode :: "pystr \<Rightarrow> byte list option" where
  "guid_encode s =
     (if length s = 36 \<and> s ! 8 = 45 \<and> s ! 13 = 45 \<and> s ! 18 = 45 \<and> s ! 23 = 45
      then (case unhexlify (take 8 s @ take 4 (drop 9 s) @ take 4 (drop 14 s)
                            @ take 4 (drop 19 s) @ drop 24 s) of
              None \<Rightarrow> None
            | Some be \<Rightarrow>
                if length be = 16
                then Some (rev (take 4 be) @ rev (take 2 (drop 4 be))
                           @ rev (take 2 (drop 6 be)) @ drop 8 be)
                else None)
      else None)"

subsection \<open>A concrete event\<close>

text \<open>
  A header with signature \<^verbatim>\<open>EFI PART\<close>, revision \<^verbatim>\<open>00 00 01 00\<close>,
  \<open>header_size = 92\<close>, \<open>part_entry_start_lba = 2\<close>, \<open>num_part_entries = 2\<close> and
  \<open>part_entry_size = 128\<close>; in an event the 8-byte partition count follows it, so that
  the partition array starts at byte \<open>100 = 2 * 50\<close>.
\<close>

definition example_header_bytes :: "byte list" where
  "example_header_bytes =
     ascii_bytes ''EFI PART'' @ [0x00, 0x00, 0x01, 0x00] @ [92, 0, 0, 0] @ [0, 0, 0, 0]
     @ [0, 0, 0, 0]
     @ [1, 0, 0, 0, 0, 0, 0, 0] @ [0xff, 0xff, 0, 0, 0, 0, 0, 0]
     @ [34, 0, 0, 0, 0, 0, 0, 0] @ [0xde, 0xff, 0, 0, 0, 0, 0, 0]
     @ [0x10, 0x21, 0x32, 0x43, 0x54, 0x65, 0x76, 0x87,
        0x98, 0xa9, 0xba, 0xcb, 0xdc, 0xed, 0xfe, 0x0f]
     @ [2, 0, 0, 0, 0, 0, 0, 0] @ [2, 0, 0, 0] @ [128, 0, 0, 0] @ [0, 0, 0, 0]"

definition example_header :: GPTHeader where
  "example_header =
     \<lparr>signature = ascii_bytes ''EFI PART'', revision = [0x00, 0x00, 0x01, 0x00],
      header_size = 92, crc32 = 0, current_lba = 1, backup_lba = 65535,
      first_usable_lba = 34, last_usable_lba = 65502,
      disk_guid = PyStr (ascii ''43322110-6554-8776-98a9-bacbdcedfe0f''),
      part_entry_start_lba = 2, num_part_entries = 2, part_entry_size = 128,
      crc32_part_array = 0\<rparr>"

definition partition_count :: "byte list" where
  "partition_count = [2, 0, 0, 0, 0, 0, 0, 0]"

text \<open>A slot whose 128 bytes are all zero, and the record the loop makes of it.\<close>

definition unused_slot :: "byte list" where
  "unused_slot = replicate 128 0"

definition unused_partition :: "int \<Rightarrow> GPTPartition" where
  "unused_partition i =
     \<lparr>type = PyStr (ascii ''00000000-0000-0000-0000-000000000000''),
      unique = PyStr (ascii ''00000000-0000-0000-0000-000000000000''),
      first_lba = 0, last_lba = 0, flags = 0, name = PyStr [], index = i\<rparr>"

text \<open>
  A populated slot: the type GUID of an EFI system partition and the name
  \<^verbatim>\<open>EFI System\<close> in UTF-16LE, padded with NUL to 72 bytes.
\<close>

definition efi_system_slot :: "byte list" where
  "efi_system_slot =
     [0x28, 0x73, 0x2a, 0xc1, 0x1f, 0xf8, 0xd2, 0x11,
      0xba, 0x4b, 0x00, 0xa0, 0xc9, 0x3e, 0xc9, 0x3b]
     @ [1, 2, 3, 4, 5, 6, 7, 8, 9, 10, 11, 12, 13, 14, 15, 16]
     @ [0, 8, 0, 0, 0, 0, 0, 0] @ [0xff, 0x0f, 0, 0, 0, 0, 0, 0] @ [0, 0, 0, 0, 0, 0, 0, 0]
     @ concat (map (\<lambda>c. [of_char c, 0]) ''EFI System'') @ replicate 52 0"

definition efi_system_partition :: "int \<Rightarrow> GPTPartition" where
  "efi_system_partition i =
     \<lparr>type = PyStr (ascii ''c12a7328-f81f-11d2-ba4b-00a0c93ec93b''),
      unique = PyStr (ascii ''04030201-0605-0807-090a-0b0c0d0e0f10''),
      first_lba = 2048, last_lba = 4095, flags = 0, name = PyStr (ascii ''EFI System''),
      index = i\<rparr>"

text \<open>
  Four events over this header: the unused slot before the populated one, the unused
  slot after it, the buffer ending after the first of the two entries, and the buffer
  ending 100 bytes into the second entry.
\<close>

definition spec_example_event :: "byte list" where
  "spec_example_event =
     example_header_bytes @ partition_count @ unused_slot @ efi_system_slot"

definition trailing_unused_event :: "byte list" where
  "trailing_unused_event =
     example_header_bytes @ partition_count @ efi_system_slot @ unused_slot"

definition one_entry_event :: "byte list" where
  "one_entry_event = example_header_bytes @ partition_count @ efi_system_slot"

definition truncated_event :: "byte list" where
  "truncated_event =
     example_header_bytes @ partition_count @ efi_system_slot @ replicate 100 0"

text \<open>
  A slot whose name field starts with the code unit \<open>D800\<close>, a high surrogate that no low
  surrogate follows; and an event with this slot first and 100 bytes of a second entry.
\<close>

definition undecodable_name_slot :: "byte list" where
  "undecodable_name_slot = take 56 efi_system_slot @ [0x00, 0xD8] @ replicate 70 0"

definition undecodable_name_event :: "byte list" where
  "undecodable_name_event =
     example_header_bytes @ partition_count @ undecodable_name_slot @ replicate 100 0"

section \<open>Facts about the formats and the library calls\<close>

lemma calcsize_GPT_HDR_FMT: "calcsize GPT_HDR_FMT = 92"
  by (simp add: calcsize_def GPT_HDR_FMT_def GPT_HEADER_FORMAT_def)

lemma calcsize_GPT_PART_FMT: "calcsize GPT_PART_FMT = 128"
  by (simp add: calcsize_def GPT_PART_FMT_def GPT_PARTITION_FORMAT_def)

lemma py_slice_to_nonneg: "0 \<le> k \<Longrightarrow> py_slice_to xs k = take (nat k) xs"
  by (simp add: py_slice_to_def)

lemma py_slice_from_nonneg: "0 \<le> k \<Longrightarrow> py_slice_from xs k = drop (nat k) xs"
  by (simp add: py_slice_from_def)

lemma unpack_items_GPT_HDR_FMT:
  "unpack_items GPT_HDR_FMT data =
     [PyBytes (take 8 data), PyBytes (take 4 (drop 8 data)),
      PyInt (le_int (take 4 (drop 12 data))), PyInt (le_int (take 4 (drop 16 data))),
      PyInt (le_int (take 8 (drop 24 data))), PyInt (le_int (take 8 (drop 32 data))),
      PyInt (le_int (take 8 (drop 40 data))), PyInt (le_int (take 8 (drop 48 data))),
      PyBytes (take 16 (drop 56 data)), PyInt (le_int (take 8 (drop 72 data))),
      PyInt (le_int (take 4 (drop 80 data))), PyInt (le_int (take 4 (drop 84 data))),
      PyInt (le_int (take 4 (drop 88 data)))]"
  by (simp add: GPT_HDR_FMT_def GPT_HEADER_FORMAT_def)

lemma unpack_items_GPT_PART_FMT:
  "unpack_items GPT_PART_FMT data =
     [PyBytes (take 16 data), PyBytes (take 16 (drop 16 data)),
      PyInt (le_int (take 8 (drop 32 data))), PyInt (le_int (take 8 (drop 40 data))),
      PyInt (le_int (take 8 (drop 48 data))), PyBytes (take 72 (drop 56 data))]"
  by (simp add: GPT_PART_FMT_def GPT_PARTITION_FORMAT_def)

lemma GPTHeader_make_unpack:
  "GPTHeader_make (unpack_items GPT_HDR_FMT data) = Inr (raw_header data)"
  by (simp add: unpack_items_GPT_HDR_FMT GPTHeader_make_def raw_header_def)

lemma str_UUID_bytes_le_16:
  "length b = 16 \<Longrightarrow> str_UUID_bytes_le (PyBytes b) = Inr (canonical_guid b)"
  by (simp add: str_UUID_bytes_le_def UUID_bytes_le_def canonical_guid_def)

lemma replicate_step: "replicate (numeral k) x = x # replicate (numeral k - 1) x"
  by (simp add: numeral_eq_Suc)

lemmas library_defs = canonical_guid_def UUID_str_def hexlify_def hex_byte_def hex_digit_def
  ascii_def ascii_bytes_def decode_name_def decode_utf16_def replicate_step

subsection \<open>Decoding a GUID and encoding it again\<close>

lemma unhex_hex_digits:
  "list_all (\<lambda>n. unhex_digit (of_char (hex_digit n)) = Some n) [0..<16]"
  by code_simp

lemma unhex_hex_digit: "n < 16 \<Longrightarrow> unhex_digit (of_char (hex_digit n)) = Some n"
  using unhex_hex_digits by (simp add: list_all_iff)

lemma byte_nibbles: "of_nat (16 * (unat b div 16) + unat b mod 16) = (b :: byte)"
  by simp

lemma unhexlify_hex_byte:
  "unhexlify (of_char (hex_digit (unat b div 16)) # of_char (hex_digit (unat b mod 16)) # cs) =
     map_option (Cons (b :: byte)) (unhexlify cs)"
proof -
  have "unat b < 256"
    using unsigned_less [of b, where ?'a = nat] by simp
  then have "unat b div 16 < 16"
    by simp
  then have h: "unhex_digit (of_char (hex_digit (unat b div 16))) = Some (unat b div 16)"
    by (rule unhex_hex_digit)
  have l: "unhex_digit (of_char (hex_digit (unat b mod 16))) = Some (unat b mod 16)"
    by (rule unhex_hex_digit) simp
  show ?thesis
    by (simp add: h l byte_nibbles split: option.splits)
qed

lemma list_of_length_16:
  "length (b :: 'a list) = 16 \<Longrightarrow>
   \<exists>b0 b1 b2 b3 b4 b5 b6 b7 b8 b9 b10 b11 b12 b13 b14 b15.
     b = [b0, b1, b2, b3, b4, b5, b6, b7, b8, b9, b10, b11, b12, b13, b14, b15]"
  by (simp add: eval_nat_numeral length_Suc_conv) blast

lemma guid_encode_canonical_guid:
  assumes "length b = 16"
  shows "\<exists>g. canonical_guid b = PyStr g \<and> guid_encode g = Some b"
proof -
  from list_of_length_16 [OF assms]
  obtain b0 b1 b2 b3 b4 b5 b6 b7 b8 b9 b10 b11 b12 b13 b14 b15
    where b: "b = [b0, b1, b2, b3, b4, b5, b6, b7, b8, b9, b10, b11, b12, b13, b14, b15]"
    by blast
  show ?thesis
    unfolding b canonical_guid_def
    by (simp add: UUID_str_def hexlify_def hex_byte_def ascii_def guid_encode_def
        unhexlify_hex_byte del: unhexlify.simps(3))
qed

section \<open>\<^verbatim>\<open>read_header\<close>: the two cases\<close>

lemma read_header_short:
  "length event < 92 \<Longrightarrow> read_header event = Inl Struct_error"
  by (simp add: read_header_def struct_unpack_def calcsize_GPT_HDR_FMT py_slice_to_nonneg)

lemma raw_header_take: "raw_header (take 92 event) = raw_header event"
  by (simp add: raw_header_def drop_take)

lemma read_header_long:
  assumes "92 \<le> length event"
  shows "read_header event =
     (if take 8 event \<noteq> ascii_bytes ''EFI PART''
      then Inl (GPTError (Bad_signature (take 8 event)))
      else if take 4 (drop 8 event) \<noteq> [0x00, 0x00, 0x01, 0x00]
      then Inl (GPTError (Bad_revision (take 4 (drop 8 event))))
      else if le_int (take 4 (drop 12 event)) < 92
      then Inl (GPTError (Bad_header_size (le_int (take 4 (drop 12 event)))))
      else Inr ((raw_header event)\<lparr>disk_guid := canonical_guid (take 16 (drop 56 event))\<rparr>))"
proof -
  have unpack: "struct_unpack GPT_HDR_FMT (take 92 event) =
      Inr (unpack_items GPT_HDR_FMT (take 92 event))"
    using assms by (simp add: struct_unpack_def calcsize_GPT_HDR_FMT)
  have guid: "str_UUID_bytes_le (disk_guid (raw_header event)) =
      Inr (canonical_guid (take 16 (drop 56 event)))"
    using assms by (simp add: raw_header_def str_UUID_bytes_le_16)
  have fields: "signature (raw_header event) = take 8 event"
    "revision (raw_header event) = take 4 (drop 8 event)"
    "header_size (raw_header event) = le_int (take 4 (drop 12 event))"
    by (simp_all add: raw_header_def)
  show ?thesis
    unfolding read_header_def Let_def calcsize_GPT_HDR_FMT
    by (simp add: py_slice_to_nonneg unpack GPTHeader_make_unpack raw_header_take guid fields)
qed

lemma read_header_example: "read_header example_header_bytes = Inr example_header"
  by (simp add: read_header_def example_header_bytes_def example_header_def
      py_slice_to_def calcsize_def GPT_HDR_FMT_def GPT_HEADER_FORMAT_def struct_unpack_def
      GPTHeader_make_def str_UUID_bytes_le_def UUID_bytes_le_def library_defs)

lemma length_example_header_bytes: "length example_header_bytes = 92"
  by (simp add: example_header_bytes_def ascii_bytes_def)

section \<open>Properties of \<^verbatim>\<open>read_header\<close>\<close>

text \<open>
  C4, as the script behaves. On a buffer shorter than the 92 bytes of the header format
  \<^verbatim>\<open>read_header\<close> fails in \<^verbatim>\<open>struct.unpack\<close>, with \<^verbatim>\<open>struct.error\<close>. That
  exception is not one of the field-level errors (bad signature, bad revision, bad
  header size), and it is not a \<^verbatim>\<open>GPTError\<close> at all.
\<close>

theorem read_header_short_buffer:
  assumes "length event < 92"
  shows "read_header event = Inl Struct_error
    \<and> (\<forall>m. read_header event \<noteq> Inl (GPTError m))"
  using assms by (simp add: read_header_short)

theorem read_header_short_buffer_witness:
  "length (replicate 91 (0 :: byte)) < 92 \<and> read_header (replicate 91 0) = Inl Struct_error"
  using read_header_short_buffer [of "replicate 91 0"] by simp

text \<open>
  C4, as the claim states it, fails: the first 91 bytes of a valid header make
  \<^verbatim>\<open>read_header\<close> raise \<^verbatim>\<open>struct.error\<close>, which is no member of
  \<^verbatim>\<open>GPTError\<close>.
\<close>

theorem read_header_short_not_GPTError:
  "read_header (take 91 example_header_bytes) = Inl Struct_error
   \<and> \<not> is_GPTError Struct_error"
  by (simp add: read_header_short length_example_header_bytes)

text \<open>
  C7. A header that \<^verbatim>\<open>read_header\<close> returns has the signature \<^verbatim>\<open>EFI PART\<close>, the
  revision bytes \<^verbatim>\<open>00 00 01 00\<close> and a header size of at least 92; the function has no
  other way of returning one.
\<close>

theorem read_header_validated:
  assumes "read_header event = Inr h"
  shows "signature h = ascii_bytes ''EFI PART''
    \<and> revision h = [0x00, 0x00, 0x01, 0x00]
    \<and> 92 \<le> header_size h"
proof (cases "length event < 92")
  case True
  then show ?thesis using assms by (simp add: read_header_short)
next
  case False
  then have "92 \<le> length event" by simp
  from read_header_long [OF this] assms show ?thesis
    by (auto simp: raw_header_def split: if_splits)
qed

theorem read_header_validated_witness:
  "read_header example_header_bytes = Inr example_header
   \<and> signature example_header = ascii_bytes ''EFI PART''
   \<and> revision example_header = [0x00, 0x00, 0x01, 0x00]
   \<and> 92 \<le> header_size example_header"
  using read_header_validated [OF read_header_example] read_header_example by blast

text \<open>
  C8. On a buffer of at least 92 bytes whose first 8 bytes are not \<^verbatim>\<open>EFI PART\<close>,
  \<^verbatim>\<open>read_header\<close> raises the bad-signature \<^verbatim>\<open>GPTError\<close> with those 8 bytes,
  whatever the rest of the buffer holds.
\<close>

theorem read_header_bad_signature:
  assumes "92 \<le> length event" and "take 8 event \<noteq> ascii_bytes ''EFI PART''"
  shows "read_header event = Inl (GPTError (Bad_signature (take 8 event)))"
  using assms by (simp add: read_header_long)

theorem read_header_bad_signature_witness:
  "92 \<le> length (example_header_bytes[0 := 0x65])
   \<and> take 8 (example_header_bytes[0 := 0x65]) \<noteq> ascii_bytes ''EFI PART''
   \<and> read_header (example_header_bytes[0 := 0x65]) =
       Inl (GPTError (Bad_signature (take 8 (example_header_bytes[0 := 0x65]))))"
proof -
  have len: "92 \<le> length (example_header_bytes[0 := 0x65])"
    by (simp add: length_example_header_bytes)
  have sig: "take 8 (example_header_bytes[0 := 0x65]) \<noteq> ascii_bytes ''EFI PART''"
    by (simp add: example_header_bytes_def ascii_bytes_def)
  from read_header_bad_signature [OF len sig] len sig show ?thesis
    by blast
qed

text \<open>
  C10. \<^verbatim>\<open>read_header\<close> looks at the first 92 bytes only: two buffers with the same
  first 92 bytes give the same header or the same exception.
\<close>

theorem read_header_prefix_only:
  assumes "take 92 b1 = take 92 b2"
  shows "read_header b1 = read_header b2"
  using assms
  by (simp add: read_header_def calcsize_GPT_HDR_FMT py_slice_to_nonneg)

theorem read_header_prefix_only_witness:
  "take 92 (example_header_bytes @ [1]) = take 92 (example_header_bytes @ [2])
   \<and> read_header (example_header_bytes @ [1]) = read_header (example_header_bytes @ [2])"
proof -
  have eq: "take 92 (example_header_bytes @ [1]) = take 92 (example_header_bytes @ [2])"
    by (simp add: length_example_header_bytes)
  from read_header_prefix_only [OF eq] eq show ?thesis
    by blast
qed

text \<open>
  C6. Every field of a header that \<^verbatim>\<open>read_header\<close> returns is the value at the
  field's place in the buffer: the bytes themselves for the signature and the revision,
  the little-endian number for the integers. The one exception is \<^verbatim>\<open>disk_guid\<close>,
  which is the canonical text of the 16 bytes at offset 56; encoding that text gives
  those 16 bytes back, and decoding them again gives the same text.
\<close>

theorem read_header_fields:
  assumes "read_header event = Inr h"
  shows "signature h = take 8 event
    \<and> revision h = take 4 (drop 8 event)
    \<and> header_size h = le_int (take 4 (drop 12 event))
    \<and> crc32 h = le_int (take 4 (drop 16 event))
    \<and> current_lba h = le_int (take 8 (drop 24 event))
    \<and> backup_lba h = le_int (take 8 (drop 32 event))
    \<and> first_usable_lba h = le_int (take 8 (drop 40 event))
    \<and> last_usable_lba h = le_int (take 8 (drop 48 event))
    \<and> part_entry_start_lba h = le_int (take 8 (drop 72 event))
    \<and> num_part_entries h = le_int (take 4 (drop 80 event))
    \<and> part_entry_size h = le_int (take 4 (drop 84 event))
    \<and> crc32_part_array h = le_int (take 4 (drop 88 event))
    \<and> (\<exists>g. disk_guid h = PyStr g
          \<and> guid_encode g = Some (take 16 (drop 56 event))
          \<and> str_UUID_bytes_le (PyBytes (take 16 (drop 56 event))) = Inr (PyStr g))"
proof (cases "length event < 92")
  case True
  then show ?thesis using assms by (simp add: read_header_short)
next
  case False
  then have long: "92 \<le> length event" by simp
  then have len: "length (take 16 (drop 56 event)) = 16" by simp
  from guid_encode_canonical_guid [OF len] obtain g
    where g: "canonical_guid (take 16 (drop 56 event)) = PyStr g"
      and enc: "guid_encode g = Some (take 16 (drop 56 event))"
    by blast
  have dec: "str_UUID_bytes_le (PyBytes (take 16 (drop 56 event))) = Inr (PyStr g)"
    by (simp add: str_UUID_bytes_le_16 [OF len] g)
  have h: "h = (raw_header event)\<lparr>disk_guid := PyStr g\<rparr>"
    using read_header_long [OF long] assms by (simp add: g split: if_splits)
  show ?thesis
    unfolding h using enc dec by (simp add: raw_header_def)
qed

theorem read_header_fields_witness:
  "read_header example_header_bytes = Inr example_header
   \<and> num_part_entries example_header = le_int (take 4 (drop 80 example_header_bytes))
   \<and> part_entry_size example_header = le_int (take 4 (drop 84 example_header_bytes))
   \<and> (\<exists>g. disk_guid example_header = PyStr g
         \<and> guid_encode g = Some (take 16 (drop 56 example_header_bytes)))"
  using read_header_fields [OF read_header_example] read_header_example by blast

section \<open>\<^verbatim>\<open>read_partitions\<close>: one pass, and runs over a split range\<close>

lemma read_partitions_loop_Cons:
  "read_partitions_loop e sz (i # is) =
     (case entry_outcome (py_slice_to e sz) i of
        Return \<Rightarrow> ([], None)
      | Raise err \<Rightarrow> raise err
      | Continue \<Rightarrow> read_partitions_loop (py_slice_from e sz) sz is
      | Yield p \<Rightarrow> yield p (read_partitions_loop (py_slice_from e sz) sz is))"
  by (simp add: entry_outcome_def Let_def split: sum.splits)

lemma entry_outcome_Return: "entry_outcome data i = Return \<longleftrightarrow> data = []"
  by (simp add: entry_outcome_def split: sum.splits)


lemma entry_outcome_short:
  "data \<noteq> [] \<Longrightarrow> length data < 128 \<Longrightarrow>
   entry_outcome data i = Raise (GPTError Short_partition_entry)"
  by (simp add: entry_outcome_def calcsize_GPT_PART_FMT)

lemma entry_outcome_oversized:
  "128 < length data \<Longrightarrow> entry_outcome data i = Raise Struct_error"
  by (auto simp: entry_outcome_def calcsize_GPT_PART_FMT struct_unpack_def)

lemma entry_outcome_full:
  assumes "length data = 128"
  shows "entry_outcome data i =
     (case decode_name (PyBytes (take 72 (drop 56 data))) of
        Inl e \<Rightarrow> Raise e
      | Inr n \<Rightarrow>
          Yield \<lparr>type = canonical_guid (take 16 data),
                 unique = canonical_guid (take 16 (drop 16 data)),
                 first_lba = le_int (take 8 (drop 32 data)),
                 last_lba = le_int (take 8 (drop 40 data)),
                 flags = le_int (take 8 (drop 48 data)), name = n, index = i\<rparr>)"
proof -
  have ne: "data \<noteq> []" using assms by auto
  have t: "length (take 16 data) = 16" and u: "length (take 16 (drop 16 data)) = 16"
    using assms by simp_all
  show ?thesis
    by (simp add: entry_outcome_def ne assms calcsize_GPT_PART_FMT struct_unpack_def
        unpack_items_GPT_PART_FMT GPTPartition_make_def replace_fields_def
        str_UUID_bytes_le_16 [OF t] str_UUID_bytes_le_16 [OF u] split: sum.splits)
qed

text \<open>
  The unused-slot test never succeeds: \<^verbatim>\<open>part.type\<close> is a \<^verbatim>\<open>bytes\<close> object and
  the literal it is compared with is a \<^verbatim>\<open>str\<close>, so no pass ends in
  \<^verbatim>\<open>continue\<close>.
\<close>

lemma entry_outcome_never_Continue: "entry_outcome data i \<noteq> Continue"
  by (simp add: entry_outcome_def struct_unpack_def unpack_items_GPT_PART_FMT
      GPTPartition_make_def split: sum.splits)

lemma slice_empty_step:
  "py_slice_to e sz = [] \<Longrightarrow> py_slice_to (py_slice_from e sz) sz = []"
  by (auto simp: py_slice_to_def py_slice_from_def split: if_splits)

lemma slice_empty_advance:
  "py_slice_to e sz = [] \<Longrightarrow> py_slice_to (advance e sz k) sz = []"
  by (induction k arbitrary: e) (simp_all add: slice_empty_step)

lemma loop_empty_slice:
  "py_slice_to e sz = [] \<Longrightarrow> read_partitions_loop e sz is = ([], None)"
  by (cases "is") simp_all

lemma advance_nonneg: "0 \<le> sz \<Longrightarrow> advance e sz k = drop (k * nat sz) e"
  by (induction k arbitrary: e) (simp_all add: py_slice_from_nonneg add.commute)

lemma entry_slice_nonneg:
  "0 \<le> sz \<Longrightarrow> entry_slice e sz k = take (nat sz) (drop (k * nat sz) e)"
  by (simp add: entry_slice_def advance_nonneg py_slice_to_nonneg)

lemma loop_append:
  "read_partitions_loop e sz (xs @ ys) =
     and_then (read_partitions_loop e sz xs)
       (read_partitions_loop (advance e sz (length xs)) sz ys)"
proof (induction xs arbitrary: e)
  case Nil
  show ?case by (simp add: and_then_def)
next
  case (Cons i xs)
  show ?case
  proof (cases "entry_outcome (py_slice_to e sz) i")
    case Return
    then have empty: "py_slice_to e sz = []"
      by (simp add: entry_outcome_Return)
    then have "py_slice_to (advance e sz (length (i # xs))) sz = []"
      by (rule slice_empty_advance)
    then have "read_partitions_loop (advance e sz (length (i # xs))) sz ys = ([], None)"
      by (rule loop_empty_slice)
    moreover have "read_partitions_loop e sz ((i # xs) @ ys) = ([], None)"
      using empty by (rule loop_empty_slice)
    moreover have "read_partitions_loop e sz (i # xs) = ([], None)"
      using empty by (rule loop_empty_slice)
    ultimately show ?thesis
      by (simp add: and_then_def del: read_partitions_loop.simps advance.simps)
  next
    case (Raise err)
    then show ?thesis
      by (simp add: read_partitions_loop_Cons and_then_def raise_def
          del: read_partitions_loop.simps)
  next
    case Continue
    then show ?thesis
      by (simp add: read_partitions_loop_Cons Cons.IH del: read_partitions_loop.simps)
  next
    case (Yield p)
    then show ?thesis
      by (simp add: read_partitions_loop_Cons Cons.IH and_then_def yield_def
          del: read_partitions_loop.simps split: option.splits)
  qed
qed

lemma and_then_nothing: "and_then r ([], None) = r"
  by (cases r) (simp add: and_then_def split: option.splits)

lemma loop_length: "length (fst (read_partitions_loop e sz xs)) \<le> length xs"
proof (induction xs arbitrary: e)
  case Nil
  show ?case by simp
next
  case (Cons i xs)
  have "length (fst (read_partitions_loop (py_slice_from e sz) sz xs)) \<le> length xs"
    by (rule Cons.IH)
  then show ?case
    by (simp add: read_partitions_loop_Cons yield_def raise_def
        del: read_partitions_loop.simps split: outcome.splits)
qed

lemma read_partitions_loop_form:
  "read_partitions event header lba =
     read_partitions_loop (partition_array event header lba) (part_entry_size header)
       [1 .. num_part_entries header]"
  by (simp add: read_partitions_def partition_array_def)

text \<open>
  The run over the indices \<open>1..n\<close> is the run over \<open>1..j-1\<close> followed by the run
  that starts at entry \<open>j\<close>.
\<close>

lemma read_partitions_split:
  assumes "1 \<le> j" and "j \<le> num_part_entries header"
  shows "read_partitions event header lba =
     and_then (read_partitions event (header\<lparr>num_part_entries := j - 1\<rparr>) lba)
       (read_partitions_loop
          (advance (partition_array event header lba) (part_entry_size header) (nat (j - 1)))
          (part_entry_size header) (j # [j + 1 .. num_part_entries header]))"
proof -
  have range: "[1 .. num_part_entries header] = [1 .. j - 1] @ j # [j + 1 .. num_part_entries header]"
    using assms by (rule upto_split3)
  have len: "length [1 .. j - 1] = nat (j - 1)"
    by simp
  show ?thesis
    unfolding read_partitions_loop_form range loop_append len
    by (simp add: partition_array_def)
qed

subsection \<open>The runs over the concrete events\<close>

lemma length_unused_slot: "length unused_slot = 128"
  by (simp add: unused_slot_def)

lemma length_efi_system_slot: "length efi_system_slot = 128"
  by (simp add: efi_system_slot_def)

lemma entry_outcome_unused_slot: "entry_outcome unused_slot i = Yield (unused_partition i)"
  by (simp add: entry_outcome_full unused_slot_def unused_partition_def library_defs)

lemma length_undecodable_name_slot: "length undecodable_name_slot = 128"
  by (simp add: undecodable_name_slot_def efi_system_slot_def)

lemma entry_outcome_undecodable_name_slot:
  "entry_outcome undecodable_name_slot i = Raise UnicodeDecodeError"
  by (simp add: entry_outcome_full length_undecodable_name_slot)
     (simp add: undecodable_name_slot_def efi_system_slot_def library_defs)

lemma entry_outcome_efi_system_slot:
  "entry_outcome efi_system_slot i = Yield (efi_system_partition i)"
  by (simp add: entry_outcome_full efi_system_slot_def efi_system_partition_def library_defs)

lemma read_header_take: "read_header event = read_header (take 92 event)"
  by (simp add: read_header_def calcsize_GPT_HDR_FMT py_slice_to_nonneg)

lemma read_header_example_event:
  "read_header (example_header_bytes @ rest) = Inr example_header"
proof -
  have "read_header (example_header_bytes @ rest) = read_header example_header_bytes"
    by (subst read_header_take) (simp add: length_example_header_bytes read_header_take [symmetric])
  then show ?thesis by (simp add: read_header_example)
qed

lemma partition_array_example:
  assumes "part_entry_start_lba h = 2"
  shows "partition_array (example_header_bytes @ partition_count @ rest) h None = rest"
  by (simp add: partition_array_def assms py_slice_from_nonneg length_example_header_bytes
      partition_count_def)

lemmas run_defs = read_partitions_loop_form partition_array_example read_partitions_loop_Cons
  py_slice_from_nonneg py_slice_to_nonneg length_unused_slot length_efi_system_slot
  entry_outcome_unused_slot entry_outcome_efi_system_slot yield_def raise_def upto.simps

lemma run_spec_example_event:
  "read_partitions spec_example_event example_header None =
     ([unused_partition 1, efi_system_partition 2], None)"
  by (simp add: run_defs spec_example_event_def example_header_def
      del: read_partitions_loop.simps(2))

lemma run_trailing_unused_event:
  "read_partitions trailing_unused_event example_header None =
     ([efi_system_partition 1, unused_partition 2], None)"
  by (simp add: run_defs trailing_unused_event_def example_header_def
      del: read_partitions_loop.simps(2))

lemma run_one_entry_event_1:
  "read_partitions one_entry_event (example_header\<lparr>num_part_entries := 1\<rparr>) None =
     ([efi_system_partition 1], None)"
  by (simp add: run_defs one_entry_event_def example_header_def
      del: read_partitions_loop.simps(2))

lemma run_truncated_event_1:
  "read_partitions truncated_event (example_header\<lparr>num_part_entries := 1\<rparr>) None =
     ([efi_system_partition 1], None)"
  by (simp add: run_defs truncated_event_def example_header_def
      del: read_partitions_loop.simps(2))

lemma entry_slice_truncated_event:
  "entry_slice (partition_array truncated_event example_header None)
     (part_entry_size example_header) (nat (2 - 1)) = replicate 100 0"
  by (simp add: truncated_event_def partition_array_example entry_slice_nonneg
      example_header_def length_efi_system_slot)

lemma entry_slice_one_entry_event:
  "entry_slice (partition_array one_entry_event example_header None)
     (part_entry_size example_header) (nat (2 - 1)) = []"
  by (simp add: one_entry_event_def partition_array_example entry_slice_nonneg
      example_header_def length_efi_system_slot)

section \<open>Properties of \<^verbatim>\<open>read_partitions\<close>\<close>

text \<open>
  C5. When the slice of entry \<open>j\<close> is empty, the buffer having ended at an entry
  boundary while \<^verbatim>\<open>num_part_entries\<close> promised more, the run is the run over the
  entries \<open>1..j-1\<close> and nothing else: entry \<open>j\<close> and the entries after it add no record
  and no exception. In every case the run yields at most \<^verbatim>\<open>num_part_entries\<close>
  records, one per pass at most.
\<close>

theorem read_partitions_empty_slice:
  "(1 \<le> j \<and> j \<le> num_part_entries header
     \<and> entry_slice (partition_array event header lba) (part_entry_size header) (nat (j - 1)) = []
    \<longrightarrow> read_partitions event header lba =
          read_partitions event (header\<lparr>num_part_entries := j - 1\<rparr>) lba)
   \<and> length (fst (read_partitions event header lba)) \<le> nat (num_part_entries header)"
proof (intro conjI impI)
  assume a: "1 \<le> j \<and> j \<le> num_part_entries header
     \<and> entry_slice (partition_array event header lba) (part_entry_size header) (nat (j - 1)) = []"
  then have j: "1 \<le> j" "j \<le> num_part_entries header"
    by simp_all
  from a have "py_slice_to
      (advance (partition_array event header lba) (part_entry_size header) (nat (j - 1)))
      (part_entry_size header) = []"
    by (simp add: entry_slice_def)
  then have rest: "read_partitions_loop
      (advance (partition_array event header lba) (part_entry_size header) (nat (j - 1)))
      (part_entry_size header) (j # [j + 1 .. num_part_entries header]) = ([], None)"
    by (rule loop_empty_slice)
  show "read_partitions event header lba =
      read_partitions event (header\<lparr>num_part_entries := j - 1\<rparr>) lba"
    unfolding read_partitions_split [OF j, of event lba] rest
    by (rule and_then_nothing)
next
  have "length (fst (read_partitions event header lba)) \<le> length [1 .. num_part_entries header]"
    unfolding read_partitions_loop_form by (rule loop_length)
  then show "length (fst (read_partitions event header lba)) \<le> nat (num_part_entries header)"
    by simp
qed

theorem read_partitions_empty_slice_witness:
  "1 \<le> (2 :: int) \<and> 2 \<le> num_part_entries example_header
   \<and> entry_slice (partition_array one_entry_event example_header None)
       (part_entry_size example_header) (nat (2 - 1)) = []
   \<and> read_partitions one_entry_event example_header None = ([efi_system_partition 1], None)"
proof -
  have j: "1 \<le> (2 :: int) \<and> 2 \<le> num_part_entries example_header"
    by (simp add: example_header_def)
  have prefix: "read_partitions one_entry_event (example_header\<lparr>num_part_entries := 2 - 1\<rparr>) None
      = ([efi_system_partition 1], None)"
    by (simp add: run_one_entry_event_1)
  from read_partitions_empty_slice [of 2 example_header one_entry_event None]
    j entry_slice_one_entry_event prefix
  show ?thesis by metis
qed

text \<open>
  C3, as the script behaves. When the slice of entry \<open>j\<close> is not empty but shorter than
  128 bytes and no earlier entry raised, the run yields what the run over the entries
  \<open>1..j-1\<close> yields and then raises the \<^verbatim>\<open>GPTError\<close> "Short partition entry", whose
  message holds no index. No record is made of entry \<open>j\<close> and no later entry is read.
\<close>

theorem read_partitions_short_entry:
  assumes "1 \<le> j" and "j \<le> num_part_entries header"
    and "entry_slice (partition_array event header lba) (part_entry_size header) (nat (j - 1))
          \<noteq> []"
    and "length (entry_slice (partition_array event header lba) (part_entry_size header)
          (nat (j - 1))) < 128"
    and "snd (read_partitions event (header\<lparr>num_part_entries := j - 1\<rparr>) lba) = None"
  shows "read_partitions event header lba =
     (fst (read_partitions event (header\<lparr>num_part_entries := j - 1\<rparr>) lba),
      Some (GPTError Short_partition_entry))"
proof -
  have "entry_outcome
      (py_slice_to (advance (partition_array event header lba) (part_entry_size header)
         (nat (j - 1))) (part_entry_size header)) j
      = Raise (GPTError Short_partition_entry)"
    using assms(3,4) unfolding entry_slice_def by (rule entry_outcome_short)
  then have "read_partitions_loop
      (advance (partition_array event header lba) (part_entry_size header) (nat (j - 1)))
      (part_entry_size header) (j # [j + 1 .. num_part_entries header])
      = ([], Some (GPTError Short_partition_entry))"
    by (simp add: read_partitions_loop_Cons raise_def del: read_partitions_loop.simps)
  then show ?thesis
    using assms(5) by (simp add: read_partitions_split [OF assms(1,2)] and_then_def)
qed

theorem read_partitions_short_entry_witness:
  "1 \<le> (2 :: int) \<and> 2 \<le> num_part_entries example_header
   \<and> entry_slice (partition_array truncated_event example_header None)
       (part_entry_size example_header) (nat (2 - 1)) = replicate 100 0
   \<and> snd (read_partitions truncated_event (example_header\<lparr>num_part_entries := 2 - 1\<rparr>) None)
       = None
   \<and> read_partitions truncated_event example_header None =
       ([efi_system_partition 1], Some (GPTError Short_partition_entry))"
proof -
  have j1: "1 \<le> (2 :: int)" and j2: "2 \<le> num_part_entries example_header"
    by (simp_all add: example_header_def)
  have ne: "entry_slice (partition_array truncated_event example_header None)
      (part_entry_size example_header) (nat (2 - 1)) \<noteq> []"
    unfolding entry_slice_truncated_event by simp
  have short: "length (entry_slice (partition_array truncated_event example_header None)
      (part_entry_size example_header) (nat (2 - 1))) < 128"
    unfolding entry_slice_truncated_event by simp
  have p: "snd (read_partitions truncated_event (example_header\<lparr>num_part_entries := 2 - 1\<rparr>) None)
      = None"
    by (simp add: run_truncated_event_1)
  from read_partitions_short_entry [OF j1 j2 ne short p]
  have "read_partitions truncated_event example_header None =
      ([efi_system_partition 1], Some (GPTError Short_partition_entry))"
    by (simp add: run_truncated_event_1)
  with j1 j2 entry_slice_truncated_event p show ?thesis
    by blast
qed

text \<open>
  C3, as the claim states it, fails. The exception carries no index: a buffer that ends
  100 bytes into entry 2 and a buffer that ends 100 bytes into entry 1 end their runs
  with the same exception value. And the run need not reach a short entry 2: when the
  name of entry 1 is not valid UTF-16, the run ends there with
  \<^verbatim>\<open>UnicodeDecodeError\<close> and yields nothing.
\<close>

theorem short_entry_error_without_index:
  "read_partitions truncated_event example_header None =
     ([efi_system_partition 1], Some (GPTError Short_partition_entry))
   \<and> read_partitions (example_header_bytes @ partition_count @ replicate 100 0)
       example_header None = ([], Some (GPTError Short_partition_entry))
   \<and> read_partitions undecodable_name_event example_header None =
       ([], Some UnicodeDecodeError)"
  by (simp add: run_defs truncated_event_def undecodable_name_event_def example_header_def
      entry_outcome_short length_undecodable_name_slot entry_outcome_undecodable_name_slot
      del: read_partitions_loop.simps(2))



text \<open>
  C1, evaluated. The header promises two entries; the first slot is populated and the
  second has an all-zero type. The claim asks for one record; the run yields two, the
  second one made of the unused slot, because the unused-slot test compares a
  \<^verbatim>\<open>bytes\<close> object with a \<^verbatim>\<open>str\<close> and so never skips.
\<close>

theorem read_partitions_trailing_unused_slot:
  "read_header trailing_unused_event = Inr example_header
   \<and> read_partitions trailing_unused_event example_header None =
       ([efi_system_partition 1, unused_partition 2], None)"
proof -
  have "read_header trailing_unused_event = Inr example_header"
    unfolding trailing_unused_event_def by (rule read_header_example_event)
  then show ?thesis
    using run_trailing_unused_event by simp
qed

text \<open>
  C2, evaluated. On the event of the worked example (slot 1 with an all-zero type, slot 2
  named \<^verbatim>\<open>EFI System\<close>) the claim asks for the one record of index 2; the run yields
  a record of index 1 for the unused slot before it.
\<close>

theorem read_partitions_spec_example:
  "read_header spec_example_event = Inr example_header
   \<and> read_partitions spec_example_event example_header None =
       ([unused_partition 1, efi_system_partition 2], None)
   \<and> index (unused_partition 1) = 1
   \<and> name (efi_system_partition 2) = PyStr (ascii ''EFI System'')"
proof -
  have "read_header spec_example_event = Inr example_header"
    unfolding spec_example_event_def by (rule read_header_example_event)
  moreover have "index (unused_partition 1) = 1"
    by (simp add: unused_partition_def)
  moreover have "name (efi_system_partition 2) = PyStr (ascii ''EFI System'')"
    by (simp add: efi_system_partition_def)
  ultimately show ?thesis
    using run_spec_example_event by simp
qed

end
